theory Spec2Isabelle
  imports Complex_Main "HOL-Library.Sublist" "HOL-Library.AList"
begin

section \<open>Python values used by the prompt and retry code\<close>

text \<open>
  A Python \<open>str\<close> is modelled as a \<open>string\<close>: the character with code \<open>n\<close> stands for
  the code point \<open>n\<close>, so the model covers the code points 0 to 255. Python integers are
  \<open>int\<close>. Python floats (\<open>shrink_speed\<close>, wait times) are modelled as exact rationals:
  rounding of binary floating point is outside the model.
\<close>

text \<open>The exceptions the code raises or lets through; \<open>ParseError\<close>, \<open>RetryError\<close> and
  \<open>RateLimitError\<close> carry their message.\<close>

datatype py_error =
    TypeError
  | AttributeError
  | IndexError
  | ValueError
  | UnboundLocalError
  | ParseError string
  | RetryError string
  | RateLimitError string

text \<open>\<open>sep.join(xs)\<close>.\<close>

fun join :: "string \<Rightarrow> string list \<Rightarrow> string" where
  "join sep [] = []"
| "join sep [x] = x"
| "join sep (x # y # ys) = x @ sep @ join sep (y # ys)"

text \<open>
  The line boundaries of \<open>str.splitlines\<close> among the code points below 256:
  LF, VT, FF, CR, FS, GS, RS and NEL; CR LF counts as one boundary.
\<close>

definition is_linebreak :: "char \<Rightarrow> bool" where
  "is_linebreak c \<longleftrightarrow>
     c \<in> set [CHR 0x0A, CHR 0x0B, CHR 0x0C, CHR 0x0D, CHR 0x1C, CHR 0x1D, CHR 0x1E, CHR 0x85]"

text \<open>
  \<open>str.splitlines()\<close> without \<open>keepends\<close>: \<open>cur\<close> is the line being read. A final line
  boundary does not open an empty last line, and the empty string has no line.
\<close>

fun splitlines_from :: "string \<Rightarrow> string \<Rightarrow> string list" where
  "splitlines_from cur [] = (if cur = [] then [] else [cur])"
| "splitlines_from cur (c # cs) =
     (if c = CHR 0x0D then
        (case cs of
           [] \<Rightarrow> cur # splitlines_from [] cs
         | d # ds \<Rightarrow>
             if d = CHR 0x0A then cur # splitlines_from [] ds
             else cur # splitlines_from [] cs)
      else if is_linebreak c then cur # splitlines_from [] cs
      else splitlines_from (cur @ [c]) cs)"

definition splitlines :: "string \<Rightarrow> string list" where
  "splitlines s = splitlines_from [] s"

text \<open>
  The characters \<open>str.strip()\<close> removes (\<open>str.isspace\<close>) among the code points below
  256: TAB, LF, VT, FF, CR, FS, GS, RS, US, space, NEL and NBSP.
\<close>

definition py_isspace :: "char \<Rightarrow> bool" where
  "py_isspace c \<longleftrightarrow>
     c \<in> set [CHR 0x09, CHR 0x0A, CHR 0x0B, CHR 0x0C, CHR 0x0D, CHR 0x1C, CHR 0x1D,
              CHR 0x1E, CHR 0x1F, CHR 0x20, CHR 0x85, CHR 0xA0]"

definition strip :: "string \<Rightarrow> string" where
  "strip s = rev (dropWhile py_isspace (rev (dropWhile py_isspace s)))"

text \<open>\<open>s.startswith(p)\<close>.\<close>

definition startswith :: "string \<Rightarrow> string \<Rightarrow> bool" where
  "startswith s p \<longleftrightarrow> take (length p) s = p"

text \<open>\<open>str(n)\<close> of an integer, as an f-string prints it.\<close>

definition digit_char :: "nat \<Rightarrow> char" where
  "digit_char d = ''0123456789'' ! d"

fun str_nat :: "nat \<Rightarrow> string" where
  "str_nat n =
     (if n < 10 then [digit_char n]
      else str_nat (n div 10) @ [digit_char (n mod 10)])"

declare str_nat.simps [simp del]

definition str_int :: "int \<Rightarrow> string" where
  "str_int i = (if i < 0 then CHR ''-'' # str_nat (nat (- i)) else str_nat (nat i))"

text \<open>\<open>xs[:k]\<close>: a negative \<open>k\<close> counts from the end.\<close>

definition slice_to :: "int \<Rightarrow> 'a list \<Rightarrow> 'a list" where
  "slice_to k xs =
     (if 0 \<le> k then take (nat k) xs else take (length xs - nat (- k)) xs)"

text \<open>\<open>int(x)\<close> of a float: truncation towards zero.\<close>

definition py_int :: "rat \<Rightarrow> int" where
  "py_int x = (if 0 \<le> x then \<lfloor>x\<rfloor> else \<lceil>x\<rceil>)"


section \<open>Prompt elements (dynamic\_prompting.py)\<close>

text \<open>
  \<open>PromptElement._visible\<close> is a boolean or a zero-argument callable. The callables of
  the source are closures reading mutable objects (\<open>lambda: flags.use_html\<close>); \<open>'w\<close> is
  the state they read, passed at each access since the closure is evaluated again each
  time.
\<close>

datatype 'w visibility = Flag bool | Callable "'w \<Rightarrow> bool"

text \<open>
  The attributes of the base class. The underscore of \<open>_prompt\<close>, \<open>_abstract_ex\<close> and
  \<open>_concrete_ex\<close> is written \<open>p_\<close>. A subclass that overrides \<open>_prompt\<close> with a property
  (\<open>Diff\<close>) never reads the field \<open>p_prompt\<close>.
\<close>

record 'w PromptElement =
  visible :: "'w visibility"
  p_prompt :: string
  p_abstract_ex :: string
  p_concrete_ex :: string

definition is_visible :: "'w \<Rightarrow> ('w, 'a) PromptElement_scheme \<Rightarrow> bool" where
  "is_visible w e = (case visible e of Flag b \<Rightarrow> b | Callable f \<Rightarrow> f w)"

text \<open>\<open>PromptElement._hide\<close>.\<close>

definition hide :: "'w \<Rightarrow> ('w, 'a) PromptElement_scheme \<Rightarrow> string \<Rightarrow> string" where
  "hide w e v = (if is_visible w e then v else [])"

definition prompt :: "'w \<Rightarrow> ('w, 'a) PromptElement_scheme \<Rightarrow> string" where
  "prompt w e = hide w e (p_prompt e)"

definition abstract_ex :: "'w \<Rightarrow> ('w, 'a) PromptElement_scheme \<Rightarrow> string" where
  "abstract_ex w e = hide w e (p_abstract_ex e)"

definition concrete_ex :: "'w \<Rightarrow> ('w, 'a) PromptElement_scheme \<Rightarrow> string" where
  "concrete_ex w e = hide w e (p_concrete_ex e)"

subsection \<open>Trunkater\<close>

record 'w Trunkater = "'w PromptElement" +
  t_shrink_speed :: rat
  start_trunkate_iteration :: int
  shrink_calls :: int
  deleted_lines :: int

text \<open>\<open>Trunkater.__init__\<close>, with the \<open>_prompt\<close> its subclasses \<open>HTML\<close> and \<open>AXTree\<close> set.\<close>

definition Trunkater_init ::
  "'w visibility \<Rightarrow> rat \<Rightarrow> int \<Rightarrow> string \<Rightarrow> 'w Trunkater" where
  "Trunkater_init vis speed start text =
     \<lparr> visible = vis, p_prompt = text, p_abstract_ex = [], p_concrete_ex = [],
       t_shrink_speed = speed, start_trunkate_iteration = start,
       shrink_calls = 0, deleted_lines = 0 \<rparr>"

text \<open>The marker line, appended after a newline.\<close>

definition deleted_marker :: "int \<Rightarrow> string" where
  "deleted_marker n = ''... Deleted '' @ str_int n @ '' lines to reduce prompt size.''"

definition new_line_count :: "('w, 'a) Trunkater_scheme \<Rightarrow> int" where
  "new_line_count t =
     py_int (of_nat (length (splitlines (p_prompt t))) * (1 - t_shrink_speed t))"

definition truncate_tail :: "('w, 'a) Trunkater_scheme \<Rightarrow> ('w, 'a) Trunkater_scheme" where
  "truncate_tail t =
     (let lines = splitlines (p_prompt t);
          k = new_line_count t;
          d = deleted_lines t + (int (length lines) - k)
      in t\<lparr> deleted_lines := d,
             p_prompt := join ''\<newline>'' (slice_to k lines) @ ''\<newline>'' @ deleted_marker d \<rparr>)"

definition Trunkater_shrink ::
  "'w \<Rightarrow> ('w, 'a) Trunkater_scheme \<Rightarrow> ('w, 'a) Trunkater_scheme" where
  "Trunkater_shrink w t =
     (let t' = (if is_visible w t \<and> start_trunkate_iteration t \<le> shrink_calls t
                then truncate_tail t else t)
      in t'\<lparr> shrink_calls := shrink_calls t' + 1 \<rparr>)"


text \<open>\<open>HTML.__init__\<close> and \<open>AXTree.__init__\<close>: a \<open>Trunkater\<close> with the default
  \<open>shrink_speed=0.3\<close> and its own grace period.\<close>

definition visible_elements_note :: string where
  "visible_elements_note =
     ''Note: only elements that are visible in the viewport are presented. You might need to sroll the page, or open tabs or menus to see more.\<newline>\<newline>''"

definition HTML_init :: "string \<Rightarrow> bool \<Rightarrow> 'w visibility \<Rightarrow> string \<Rightarrow> 'w Trunkater" where
  "HTML_init html visible_elements_only vis pre =
     Trunkater_init vis (3 / 10) 5
       (''\<newline>'' @ pre @ ''HTML:\<newline>''
          @ (if visible_elements_only then visible_elements_note else [])
          @ html @ ''\<newline>'')"

definition coord_note :: "string \<Rightarrow> string" where
  "coord_note coord_type =
     (if coord_type = ''center'' then
        ''Note: center coordinates are provided in parenthesis and are relative to the top left corner of the page.\<newline>\<newline>''
      else if coord_type = ''box'' then
        ''Note: bounding box of each object are provided in parenthesis and are relative to the top left corner of the page.\<newline>\<newline>''
      else [])"

definition AXTree_init ::
  "string \<Rightarrow> bool \<Rightarrow> 'w visibility \<Rightarrow> string \<Rightarrow> string \<Rightarrow> 'w Trunkater" where
  "AXTree_init ax_tree visible_elements_only vis coord_type pre =
     Trunkater_init vis (3 / 10) 10
       (''\<newline>'' @ pre @ ''AXTree:\<newline>'' @ coord_note coord_type
          @ (if visible_elements_only then visible_elements_note else [])
          @ ax_tree @ ''\<newline>'')"

subsection \<open>diff and Diff\<close>

text \<open>The arguments of \<open>diff\<close> are strings or \<open>None\<close>.\<close>

datatype pyval = PyNone | PyStr string

text \<open>
  The loop of \<open>diff\<close> over the lines \<open>difflib.ndiff\<close> yields, with its three
  accumulators \<open>diff_lines\<close>, \<open>plus_count\<close> and \<open>minus_count\<close>.
\<close>

fun diff_loop :: "string list \<Rightarrow> string list \<times> int \<times> int \<Rightarrow> string list \<times> int \<times> int" where
  "diff_loop [] acc = acc"
| "diff_loop (line # rest) (diff_lines, plus_count, minus_count) =
     (if startswith (strip line) ''+'' then
        diff_loop rest (diff_lines @ [line], plus_count + 1, minus_count)
      else if startswith (strip line) ''-'' then
        diff_loop rest (diff_lines @ [line], plus_count, minus_count + 1)
      else diff_loop rest (diff_lines, plus_count, minus_count))"

definition diff_header :: "int \<Rightarrow> int \<Rightarrow> string" where
  "diff_header plus_count minus_count =
     str_int plus_count @ '' lines added and '' @ str_int minus_count @ '' lines removed:''"

text \<open>
  \<open>diff(previous, new)\<close>. \<open>difflib.ndiff\<close> belongs to the Python standard library, not
  to this repository: it is the parameter \<open>ndiff\<close>, from two lists of lines to the
  lines of the delta. \<open>len(previous)\<close> is evaluated before \<open>previous is None\<close>, and
  \<open>len(None)\<close> raises \<open>TypeError\<close>; \<open>None.splitlines()\<close> raises \<open>AttributeError\<close>.
\<close>

definition diff ::
  "(string list \<Rightarrow> string list \<Rightarrow> string list) \<Rightarrow> pyval \<Rightarrow> pyval
     \<Rightarrow> py_error + (string \<times> string list)" where
  "diff ndiff previous new =
     (if previous = new then Inr (''Identical'', [])
      else case previous of
        PyNone \<Rightarrow> Inl TypeError
      | PyStr p \<Rightarrow>
          if length p = 0 then Inr (''previous is empty'', [])
          else (case new of
                  PyNone \<Rightarrow> Inl AttributeError
                | PyStr n \<Rightarrow>
                    (case diff_loop (ndiff (splitlines p) (splitlines n)) ([], 0, 0) of
                       (diff_lines, plus_count, minus_count) \<Rightarrow>
                         Inr (diff_header plus_count minus_count, diff_lines))))"

record 'w Diff = "'w PromptElement" +
  max_line_diff :: int
  header :: string
  diff_lines :: "string list"
  d_shrink_speed :: int
  d_prefix :: string


definition Diff_shrink :: "('w, 'a) Diff_scheme \<Rightarrow> ('w, 'a) Diff_scheme" where
  "Diff_shrink d = d\<lparr> max_line_diff := max 1 (max_line_diff d - d_shrink_speed d) \<rparr>"

definition truncation_notice :: "int \<Rightarrow> string" where
  "truncation_notice hidden =
     ''\<newline>Diff truncated, '' @ str_int hidden @ '' changes now shown.''"

text \<open>The property \<open>Diff._prompt\<close>.\<close>

definition Diff_p_prompt :: "('w, 'a) Diff_scheme \<Rightarrow> string" where
  "Diff_p_prompt d =
     (let diff_str = join ''\<newline>'' (slice_to (max_line_diff d) (diff_lines d));
          diff_str' =
            (if max_line_diff d < int (length (diff_lines d))
             then diff_str @ truncation_notice (int (length (diff_lines d)) - max_line_diff d)
             else diff_str)
      in d_prefix d @ header d @ ''\<newline>'' @ diff_str' @ ''\<newline>'')"

definition Diff_prompt :: "'w \<Rightarrow> ('w, 'a) Diff_scheme \<Rightarrow> string" where
  "Diff_prompt w d = hide w d (Diff_p_prompt d)"

subsection \<open>The composites Observation, HistoryStep and History\<close>

text \<open>
  The closures of the composites read the shared \<open>flags\<close> object: its boolean fields that
  the visibility closures and the history prompt read are the state \<open>'w\<close> of their elements.
\<close>

record ObsFlags =
  use_html :: bool
  use_ax_tree :: bool
  use_focused_element :: bool
  use_error_logs :: bool
  use_history :: bool
  use_past_error_logs :: bool
  use_action_history :: bool
  use_think_history :: bool
  use_diff :: bool

record Observation = "ObsFlags PromptElement" +
  html :: "ObsFlags Trunkater"
  ax_tree :: "ObsFlags Trunkater"
  error :: "ObsFlags PromptElement"
  focused_element :: "ObsFlags PromptElement"


definition Observation_p_prompt :: "ObsFlags \<Rightarrow> Observation \<Rightarrow> string" where
  "Observation_p_prompt w ob =
     ''\<newline># Observation of current step:\<newline>''
       @ prompt w (html ob) @ prompt w (ax_tree ob)
       @ prompt w (focused_element ob) @ prompt w (error ob)
       @ ''\<newline>\<newline>''"

definition Observation_prompt :: "ObsFlags \<Rightarrow> Observation \<Rightarrow> string" where
  "Observation_prompt w ob = hide w ob (Observation_p_prompt w ob)"

record HistoryStep = "ObsFlags PromptElement" +
  html_diff :: "ObsFlags Diff"
  ax_tree_diff :: "ObsFlags Diff"
  hs_error :: "ObsFlags PromptElement"
  hs_shrink_speed :: int
  action :: string
  memory :: "string option"
  thought :: string


definition HistoryStep_p_prompt :: "ObsFlags \<Rightarrow> HistoryStep \<Rightarrow> string" where
  "HistoryStep_p_prompt w h =
     (if use_think_history w then ''\<newline>### Think:\<newline>'' @ thought h @ ''\<newline>'' else [])
       @ (if use_action_history w then ''\<newline>### Action:\<newline>'' @ action h @ ''\<newline>'' else [])
       @ prompt w (hs_error h) @ Diff_prompt w (html_diff h) @ Diff_prompt w (ax_tree_diff h)
       @ (case memory h of
            None \<Rightarrow> []
          | Some m \<Rightarrow> ''\<newline>### Memory:\<newline>'' @ m @ ''\<newline>'')"

definition HistoryStep_prompt :: "ObsFlags \<Rightarrow> HistoryStep \<Rightarrow> string" where
  "HistoryStep_prompt w h = hide w h (HistoryStep_p_prompt w h)"

record History = "ObsFlags PromptElement" +
  h_shrink_speed :: int
  history_steps :: "HistoryStep list"


text \<open>The loop of \<open>History._prompt\<close> over \<open>enumerate(self.history_steps)\<close>.\<close>

fun step_prompts :: "ObsFlags \<Rightarrow> nat \<Rightarrow> HistoryStep list \<Rightarrow> string list" where
  "step_prompts w i [] = []"
| "step_prompts w i (s # ss) =
     (''## step '' @ str_nat i) # HistoryStep_prompt w s # step_prompts w (Suc i) ss"

definition History_p_prompt :: "ObsFlags \<Rightarrow> History \<Rightarrow> string" where
  "History_p_prompt w h =
     join ''\<newline>''
       (''# History of interaction with the task:\<newline>'' # step_prompts w 0 (history_steps h))
       @ ''\<newline>''"

definition History_prompt :: "ObsFlags \<Rightarrow> History \<Rightarrow> string" where
  "History_prompt w h = hide w h (History_p_prompt w h)"



subsection \<open>fit\_tokens\<close>

text \<open>
  A prompt is a string or a list of parts; the parts the source builds
  (\<open>Observation.add_screenshot\<close>) are \<open>{"type": "text", "text": ...}\<close> and
  \<open>{"type": "image_url", "image_url": ...}\<close>. \<open>OtherPrompt\<close> is a value of any other type.
\<close>

datatype part = TextPart string | ImagePart string

datatype fragment = StrPrompt string | PartsPrompt "part list" | OtherPrompt

text \<open>\<open>[p["text"] for p in prompt if p["type"] == "text"]\<close>.\<close>

fun text_parts :: "part list \<Rightarrow> string list" where
  "text_parts [] = []"
| "text_parts (TextPart s # ps) = s # text_parts ps"
| "text_parts (ImagePart u # ps) = text_parts ps"

text \<open>The \<open>prompt_str\<close> of one iteration; \<open>ValueError\<close> for an unrecognized type.\<close>

definition prompt_str :: "fragment \<Rightarrow> py_error + string" where
  "prompt_str p =
     (case p of
        StrPrompt s \<Rightarrow> Inr s
      | PartsPrompt ps \<Rightarrow> Inr (join ''\<newline>'' (text_parts ps))
      | OtherPrompt \<Rightarrow> Inl ValueError)"

text \<open>
  How the \<open>for\<close> loop of \<open>fit_tokens\<close> ends: by its \<open>return prompt\<close>, by an exception, or
  by running out of iterations, with the \<open>prompt\<close> and \<open>prompt_str\<close> of the last
  iteration if there was one. Each carries the state of the root element and the number
  of calls of its \<open>shrink\<close>.
\<close>

datatype 's loop_end =
    Returned fragment 's nat
  | Raised py_error 's nat
  | Exhausted 's nat "(fragment \<times> string) option"

text \<open>
  The root element is any \<open>Shrinkable\<close>: \<open>render\<close> is its \<open>prompt\<close> property and \<open>shrink\<close> its
  \<open>shrink\<close> method, on its state \<open>'s\<close>. The tokenizer is outside the repository:
  \<open>count_tokens text model\<close> is a parameter. The first numeric argument is the number of
  iterations left of \<open>range(max_iterations)\<close>.
\<close>

fun fit_tokens_loop ::
  "(string \<Rightarrow> string \<Rightarrow> nat) \<Rightarrow> ('s \<Rightarrow> fragment) \<Rightarrow> ('s \<Rightarrow> 's) \<Rightarrow> int \<Rightarrow> string
     \<Rightarrow> nat \<Rightarrow> 's \<Rightarrow> nat \<Rightarrow> (fragment \<times> string) option \<Rightarrow> 's loop_end" where
  "fit_tokens_loop count_tokens render shrink max_prompt_tokens model_name 0 s k seen =
     Exhausted s k seen"
| "fit_tokens_loop count_tokens render shrink max_prompt_tokens model_name (Suc i) s k seen =
     (let prompt = render s in
      case prompt_str prompt of
        Inl e \<Rightarrow> Raised e s k
      | Inr ps \<Rightarrow>
          if int (count_tokens ps model_name) \<le> max_prompt_tokens then Returned prompt s k
          else fit_tokens_loop count_tokens render shrink max_prompt_tokens model_name i
                 (shrink s) (Suc k) (Some (prompt, ps)))"

text \<open>The message passed to \<open>logging.info\<close>, after \<open>dedent\<close>.\<close>

definition still_too_long :: "int \<Rightarrow> nat \<Rightarrow> int \<Rightarrow> string" where
  "still_too_long max_iterations n_token max_prompt_tokens =
     ''After '' @ str_int max_iterations @ '' shrink iterations, the prompt is still\<newline>''
       @ str_nat n_token @ '' tokens (greater than '' @ str_int max_prompt_tokens
       @ ''). Returning the prompt as is.''"

record 's fit_result =
  outcome :: "py_error + fragment"
  root :: 's
  shrink_count :: nat
  logged :: "string list"

text \<open>
  \<open>fit_tokens(shrinkable, max_prompt_tokens, max_iterations, model_name)\<close>. After the
  loop the message reads \<open>prompt_str\<close> and the function returns \<open>prompt\<close>: both are unbound
  when the loop body never ran, and Python raises \<open>UnboundLocalError\<close>. The message counts
  the tokens with the default model of \<open>count_tokens\<close>, \<open>"openai/gpt-4"\<close>.
\<close>

definition fit_tokens ::
  "(string \<Rightarrow> string \<Rightarrow> nat) \<Rightarrow> ('s \<Rightarrow> fragment) \<Rightarrow> ('s \<Rightarrow> 's) \<Rightarrow> 's \<Rightarrow> int option \<Rightarrow> int
     \<Rightarrow> string \<Rightarrow> 's fit_result" where
  "fit_tokens count_tokens render shrink s max_prompt_tokens max_iterations model_name =
     (case max_prompt_tokens of
        None \<Rightarrow> \<lparr> outcome = Inr (render s), root = s, shrink_count = 0, logged = [] \<rparr>
      | Some m \<Rightarrow>
          (case fit_tokens_loop count_tokens render shrink m model_name
                  (nat max_iterations) s 0 None of
             Returned p s' k \<Rightarrow> \<lparr> outcome = Inr p, root = s', shrink_count = k, logged = [] \<rparr>
           | Raised e s' k \<Rightarrow> \<lparr> outcome = Inl e, root = s', shrink_count = k, logged = [] \<rparr>
           | Exhausted s' k None \<Rightarrow>
               \<lparr> outcome = Inl UnboundLocalError, root = s', shrink_count = k, logged = [] \<rparr>
           | Exhausted s' k (Some (p, ps)) \<Rightarrow>
               \<lparr> outcome = Inr p, root = s', shrink_count = k,
                 logged = [still_too_long max_iterations (count_tokens ps ''openai/gpt-4'') m] \<rparr>))"


text \<open>
  A prompt against the budget \<open>m\<close>, as the loop tests it: \<open>text_of\<close> is the \<open>prompt_str\<close>
  of a prompt of a recognized type.
\<close>

definition over_budget :: "(string \<Rightarrow> string \<Rightarrow> nat) \<Rightarrow> string \<Rightarrow> int \<Rightarrow> fragment \<Rightarrow> bool" where
  "over_budget count_tokens model_name m p =
     (case prompt_str p of Inl e \<Rightarrow> False | Inr ps \<Rightarrow> m < int (count_tokens ps model_name))"

definition within_budget :: "(string \<Rightarrow> string \<Rightarrow> nat) \<Rightarrow> string \<Rightarrow> int \<Rightarrow> fragment \<Rightarrow> bool" where
  "within_budget count_tokens model_name m p =
     (case prompt_str p of Inl e \<Rightarrow> False | Inr ps \<Rightarrow> int (count_tokens ps model_name) \<le> m)"

definition text_of :: "fragment \<Rightarrow> string" where
  "text_of p = (case prompt_str p of Inl e \<Rightarrow> [] | Inr ps \<Rightarrow> ps)"


section \<open>The response parser (llm\_utils.py)\<close>

text \<open>
  \<open>split_at_first needle text\<close> is the leftmost occurrence of \<open>needle\<close> in \<open>text\<close>: the text
  before it and the text after it.
\<close>

fun split_at_first :: "string \<Rightarrow> string \<Rightarrow> (string \<times> string) option" where
  "split_at_first needle [] = (if needle = [] then Some ([], []) else None)"
| "split_at_first needle (c # cs) =
     (if take (length needle) (c # cs) = needle
      then Some ([], drop (length needle) (c # cs))
      else (case split_at_first needle cs of
              None \<Rightarrow> None
            | Some (before, after) \<Rightarrow> Some (c # before, after)))"

definition open_tag :: "string \<Rightarrow> string" where
  "open_tag key = ''<'' @ key @ ''>''"

definition close_tag :: "string \<Rightarrow> string" where
  "close_tag key = ''</'' @ key @ ''>''"


text \<open>
  \<open>re.findall(f"<{key}>(.*?)</{key}>", text, re.DOTALL)\<close> for a plain key: the leftmost
  opening tag, then, since \<open>.*?\<close> is lazy and with \<open>DOTALL\<close> matches any character, the
  text up to the first closing tag after it; the search goes on behind that closing tag.
  An opening tag with no closing tag after it matches nothing, and neither does any
  opening tag to its right.
\<close>

function findall_tag :: "string \<Rightarrow> string \<Rightarrow> string list" where
  "findall_tag key text =
     (case split_at_first (open_tag key) text of
        None \<Rightarrow> []
      | Some (before, rest) \<Rightarrow>
          (case split_at_first (close_tag key) rest of
             None \<Rightarrow> []
           | Some (inner, rest') \<Rightarrow> inner # findall_tag key rest'))"
  by pat_completeness auto
termination
proof (relation "measure (\<lambda>(key, text). length text)")
  show "wf (measure (\<lambda>(key, text). length text))" by simp
next
  fix key tx x2 before rest x2a inner rest'
  assume "split_at_first (open_tag key) tx = Some x2" "(before, rest) = x2"
    "split_at_first (close_tag key) rest = Some x2a" "(inner, rest') = x2a"
  then have a: "split_at_first (open_tag key) tx = Some (before, rest)"
    and b: "split_at_first (close_tag key) rest = Some (inner, rest')"
    by simp_all
  have shorter: "length p + length needle + length q = length t"
    if "split_at_first needle t = Some (p, q)" for needle t p q
    using that
  proof (induction t arbitrary: p q)
    case Nil
    then show ?case by (simp split: if_splits)
  next
    case (Cons c cs)
    show ?case
    proof (cases "take (length needle) (c # cs) = needle")
      case True
      then have "length (take (length needle) (c # cs)) = length needle"
        by simp
      then have "length needle \<le> length (c # cs)"
        by simp
      with Cons.prems True show ?thesis by auto
    next
      case False
      with Cons.prems obtain p' where "split_at_first needle cs = Some (p', q)" "p = c # p'"
        by (auto split: option.splits)
      with Cons.IH show ?thesis by auto
    qed
  qed
  from shorter [OF a] shorter [OF b]
  have "length rest' < length tx" by (simp add: open_tag_def)
  then show "((key, rest'), (key, tx)) \<in> measure (\<lambda>(key, text). length text)"
    by simp
qed

declare findall_tag.simps [simp del]

text \<open>
  A value of \<open>content_dict\<close>: the list of matches \<open>extract_html_tags\<close> stores, or the string
  \<open>parse_html_tags\<close> puts in its place. The dictionary keeps its keys in insertion order.
\<close>

datatype tagval = Matches "string list" | Text string

type_synonym content_dict = "(string \<times> tagval) list"

text \<open>\<open>extract_html_tags(text, keys)\<close>: one iteration per key, in order.\<close>

fun extract_loop :: "string \<Rightarrow> string list \<Rightarrow> content_dict \<Rightarrow> content_dict" where
  "extract_loop text [] content_dict = content_dict"
| "extract_loop text (key # keys) content_dict =
     (let matches = findall_tag key text in
      if matches \<noteq> []
      then extract_loop text keys (AList.update key (Matches (map strip matches)) content_dict)
      else extract_loop text keys content_dict)"

definition extract_html_tags :: "string \<Rightarrow> string list \<Rightarrow> content_dict" where
  "extract_html_tags text keys = extract_loop text keys []"

text \<open>\<open>val[0]\<close>, \<open>len(val)\<close> and \<open>"\n".join(val)\<close> on a list of strings or on a string.\<close>

definition val_first :: "tagval \<Rightarrow> py_error + tagval" where
  "val_first v =
     (case v of
        Matches [] \<Rightarrow> Inl IndexError
      | Matches (x # xs) \<Rightarrow> Inr (Text x)
      | Text [] \<Rightarrow> Inl IndexError
      | Text (c # cs) \<Rightarrow> Inr (Text [c]))"

definition val_len :: "tagval \<Rightarrow> nat" where
  "val_len v = (case v of Matches xs \<Rightarrow> length xs | Text s \<Rightarrow> length s)"

definition val_join :: "tagval \<Rightarrow> string" where
  "val_join v =
     (case v of
        Matches xs \<Rightarrow> join ''\<newline>'' xs
      | Text s \<Rightarrow> join ''\<newline>'' (map (\<lambda>c. [c]) s))"

definition missing_key_message :: "string \<Rightarrow> string" where
  "missing_key_message key = ''Missing the key <'' @ key @ ''> in the answer.''"

definition multiple_key_message :: "string \<Rightarrow> string" where
  "multiple_key_message key =
     ''Found multiple instances of the key '' @ key @ ''. You should have only one of them.''"

text \<open>
  The loop of \<open>parse_html_tags\<close> over \<open>all_keys\<close>, on \<open>content_dict\<close> and \<open>retry_messages\<close>.
  \<open>val[0]\<close> raises \<open>IndexError\<close> on an empty string, which a key listed twice can meet.
\<close>

fun parse_loop ::
  "string list \<Rightarrow> bool \<Rightarrow> string list \<Rightarrow> content_dict \<times> string list
     \<Rightarrow> py_error + (content_dict \<times> string list)" where
  "parse_loop optional_keys merge_multiple [] st = Inr st"
| "parse_loop optional_keys merge_multiple (key # keys) (content_dict, retry_messages) =
     (case map_of content_dict key of
        None \<Rightarrow>
          if key \<notin> set optional_keys
          then parse_loop optional_keys merge_multiple keys
                 (content_dict, retry_messages @ [missing_key_message key])
          else parse_loop optional_keys merge_multiple keys (content_dict, retry_messages)
      | Some val \<Rightarrow>
          (case val_first val of
             Inl e \<Rightarrow> Inl e
           | Inr v0 \<Rightarrow>
               let content_dict1 = AList.update key v0 content_dict in
               if 1 < val_len val then
                 if \<not> merge_multiple
                 then parse_loop optional_keys merge_multiple keys
                        (content_dict1, retry_messages @ [multiple_key_message key])
                 else parse_loop optional_keys merge_multiple keys
                        (AList.update key (Text (val_join val)) content_dict1, retry_messages)
               else parse_loop optional_keys merge_multiple keys (content_dict1, retry_messages)))"

text \<open>\<open>parse_html_tags(text, keys, optional_keys, merge_multiple)\<close>.\<close>

definition parse_html_tags ::
  "string \<Rightarrow> string list \<Rightarrow> string list \<Rightarrow> bool
     \<Rightarrow> py_error + (content_dict \<times> bool \<times> string)" where
  "parse_html_tags text keys optional_keys merge_multiple =
     (let all_keys = keys @ optional_keys;
          content_dict = extract_html_tags text all_keys
      in case parse_loop optional_keys merge_multiple all_keys (content_dict, []) of
           Inl e \<Rightarrow> Inl e
         | Inr (content_dict', retry_messages) \<Rightarrow>
             Inr (content_dict', length retry_messages = 0, join ''\<newline>'' retry_messages))"







section \<open>The retry driver (llm\_utils.py)\<close>

definition is_digit :: "char \<Rightarrow> bool" where
  "is_digit c \<longleftrightarrow> c \<in> set ''0123456789''"

definition digit_value :: "char \<Rightarrow> nat" where
  "digit_value c = of_char c - 48"

text \<open>The number a string of decimal digits denotes.\<close>

definition decimal_value :: "string \<Rightarrow> nat" where
  "decimal_value ds = foldl (\<lambda>a c. 10 * a + digit_value c) 0 ds"

text \<open>
  A match of \<open>try again in (\d+(\.\d+)?)s\<close> at the start of a text: the digits before and
  after the point (none after it when the optional group is absent). Both runs of digits
  are greedy, and no shorter run can match, since the character after a shorter run is a
  digit.
\<close>

definition match_wait_at :: "string \<Rightarrow> (string \<times> string) option" where
  "match_wait_at t =
     (if startswith t ''try again in '' then
        (let r = drop 13 t;
             ds = takeWhile is_digit r;
             r1 = dropWhile is_digit r
         in if ds = [] then None
            else (case r1 of
                    [] \<Rightarrow> None
                  | c # r2 \<Rightarrow>
                      if c = CHR ''s'' then Some (ds, [])
                      else if c = CHR ''.'' then
                        (let fs = takeWhile is_digit r2;
                             r3 = dropWhile is_digit r2
                         in if fs \<noteq> [] \<and> startswith r3 ''s'' then Some (ds, fs) else None)
                      else None))
      else None)"

text \<open>\<open>re.search\<close>: the leftmost position with a match.\<close>

fun search_wait :: "string \<Rightarrow> (string \<times> string) option" where
  "search_wait [] = None"
| "search_wait (c # cs) =
     (case match_wait_at (c # cs) of
        Some m \<Rightarrow> Some m
      | None \<Rightarrow> search_wait cs)"

text \<open>\<open>float(match.group(1))\<close>, as an exact rational.\<close>

definition float_of_group :: "string \<times> string \<Rightarrow> rat" where
  "float_of_group m =
     (case m of (ds, fs) \<Rightarrow>
        of_nat (decimal_value ds) + of_nat (decimal_value fs) / 10 ^ length fs)"

text \<open>\<open>_extract_wait_time(error_message, min_retry_wait_time)\<close>.\<close>

definition extract_wait_time :: "string \<Rightarrow> rat \<Rightarrow> rat" where
  "extract_wait_time error_message min_retry_wait_time =
     (case search_wait error_message of
        Some m \<Rightarrow> max min_retry_wait_time (float_of_group m)
      | None \<Rightarrow> min_retry_wait_time)"

text \<open>The turns of the conversation, and what one call of \<open>chat.invoke\<close> does: it returns an
  answer with its content, or raises \<open>RateLimitError\<close> with its message (\<open>e.args[0]\<close>). Any
  other exception of the endpoint is outside the model.\<close>

datatype message = SystemMessage string | HumanMessage string | AIMessage string

datatype response = Reply string | RateLimited string

text \<open>
  The state of one call of \<open>retry\<close>: the list \<open>messages\<close>, which the function changes in
  place, its locals \<open>tries\<close> and \<open>rate_limit_total_delay\<close>, and a record of its effects:
  how often the endpoint and the parser were called, and the durations passed to
  \<open>time.sleep\<close>, in order.
\<close>

record retry_state =
  messages :: "message list"
  tries :: int
  rate_limit_total_delay :: rat
  invocations :: nat
  parser_calls :: nat
  slept :: "rat list"

definition on_rate_limit :: "rat \<Rightarrow> retry_state \<Rightarrow> retry_state" where
  "on_rate_limit wait_time st =
     st\<lparr> invocations := invocations st + 1,
         slept := slept st @ [wait_time],
         rate_limit_total_delay := rate_limit_total_delay st + wait_time \<rparr>"

definition on_reply :: "string \<Rightarrow> retry_state \<Rightarrow> retry_state" where
  "on_reply content st =
     st\<lparr> invocations := invocations st + 1,
         messages := messages st @ [AIMessage content],
         parser_calls := parser_calls st + 1 \<rparr>"

definition on_parse_failure :: "string \<Rightarrow> retry_state \<Rightarrow> retry_state" where
  "on_parse_failure retry_message st =
     st\<lparr> tries := tries st + 1,
         messages := messages st @ [HumanMessage retry_message] \<rparr>"

definition retry_error :: "int \<Rightarrow> py_error" where
  "retry_error n_retry =
     RetryError (''Could not parse a valid value after '' @ str_int n_retry @ '' retries.'')"

text \<open>
  The \<open>while\<close> loop of \<open>retry\<close> and the \<open>raise RetryError\<close> behind it. The endpoint and the
  parser may answer differently from call to call: \<open>chat i msgs\<close> is the \<open>i\<close>-th call of
  \<open>chat.invoke\<close> and \<open>parser j content\<close> the \<open>j\<close>-th call of the parser, counted from 0. The
  loop need not end (an endpoint that always signals a rate limit, with a wait of 0), so it
  runs on fuel, one unit per iteration, and \<open>None\<close> is a run that has not ended yet.
  \<open>time.sleep\<close> raises \<open>ValueError\<close> for a negative duration. The flag \<open>log\<close> only selects
  logging and is left out.
\<close>

fun retry_loop ::
  "nat \<Rightarrow> (nat \<Rightarrow> message list \<Rightarrow> response) \<Rightarrow> (nat \<Rightarrow> string \<Rightarrow> 'v \<times> bool \<times> string)
     \<Rightarrow> int \<Rightarrow> rat \<Rightarrow> rat \<Rightarrow> retry_state \<Rightarrow> ((py_error + 'v) \<times> retry_state) option" where
  "retry_loop 0 chat parser n_retry min_retry_wait_time rate_limit_max_wait_time st = None"
| "retry_loop (Suc fuel) chat parser n_retry min_retry_wait_time rate_limit_max_wait_time st =
     (if tries st < n_retry \<and> rate_limit_total_delay st < rate_limit_max_wait_time then
        (case chat (invocations st) (messages st) of
           RateLimited e \<Rightarrow>
             (let wait_time = extract_wait_time e min_retry_wait_time in
              if wait_time < 0 then Some (Inl ValueError, st\<lparr> invocations := invocations st + 1 \<rparr>)
              else
                (let st1 = on_rate_limit wait_time st in
                 if rate_limit_max_wait_time \<le> rate_limit_total_delay st1
                 then Some (Inl (RateLimitError e), st1)
                 else retry_loop fuel chat parser n_retry min_retry_wait_time
                        rate_limit_max_wait_time st1))
         | Reply content \<Rightarrow>
             (let st1 = on_reply content st in
              case parser (parser_calls st) content of
                (val, valid, retry_message) \<Rightarrow>
                  if valid then Some (Inr val, st1)
                  else retry_loop fuel chat parser n_retry min_retry_wait_time
                         rate_limit_max_wait_time (on_parse_failure retry_message st1)))
      else Some (Inl (retry_error n_retry), st))"

text \<open>\<open>retry(chat, messages, n_retry, parser, log, min_retry_wait_time,
  rate_limit_max_wait_time)\<close>.\<close>

definition start_state :: "message list \<Rightarrow> retry_state" where
  "start_state msgs =
     \<lparr> messages = msgs, tries = 0, rate_limit_total_delay = 0, invocations = 0,
       parser_calls = 0, slept = [] \<rparr>"

definition retry ::
  "nat \<Rightarrow> (nat \<Rightarrow> message list \<Rightarrow> response) \<Rightarrow> message list \<Rightarrow> int
     \<Rightarrow> (nat \<Rightarrow> string \<Rightarrow> 'v \<times> bool \<times> string) \<Rightarrow> rat \<Rightarrow> rat
     \<Rightarrow> ((py_error + 'v) \<times> retry_state) option" where
  "retry fuel chat msgs n_retry parser min_retry_wait_time rate_limit_max_wait_time =
     retry_loop fuel chat parser n_retry min_retry_wait_time rate_limit_max_wait_time
       (start_state msgs)"




section \<open>Concrete inputs of the examples\<close>

definition flags_off :: ObsFlags where
  "flags_off =
     \<lparr> use_html = False, use_ax_tree = False, use_focused_element = False,
       use_error_logs = False, use_history = False, use_past_error_logs = False,
       use_action_history = False, use_think_history = False, use_diff = False \<rparr>"

definition hidden_leaf :: "ObsFlags PromptElement" where
  "hidden_leaf =
     \<lparr> visible = Flag False, p_prompt = ''# Instructions'',
       p_abstract_ex = ''<think>'', p_concrete_ex = ''<action>'' \<rparr>"

definition hidden_diff :: "ObsFlags Diff" where
  "hidden_diff =
     \<lparr> visible = Callable (\<lambda>f. use_html f \<and> use_diff f), p_prompt = [],
       p_abstract_ex = [], p_concrete_ex = [], max_line_diff = 20,
       header = ''1 lines added and 1 lines removed:'', diff_lines = [''- b'', ''+ x''],
       d_shrink_speed = 2, d_prefix = ''### HTML diff:'' \<rparr>"

definition hidden_history :: History where
  "hidden_history =
     \<lparr> visible = Callable use_history, p_prompt = [], p_abstract_ex = [],
       p_concrete_ex = [], h_shrink_speed = 1, history_steps = [] \<rparr>"







definition xs_render :: "nat \<Rightarrow> fragment" where
  "xs_render n = PartsPrompt [TextPart (replicate n CHR ''x''), ImagePart ''data:image/jpeg;base64,AAAA'']"

definition xs_shrink :: "nat \<Rightarrow> nat" where
  "xs_shrink n = n - 1"

definition count_chars :: "string \<Rightarrow> string \<Rightarrow> nat" where
  "count_chars text model = length text"








section \<open>Hidden elements\<close>

lemma hide_invisible: "\<not> is_visible w e \<Longrightarrow> hide w e v = []"
  by (simp add: hide_def)

lemma is_visible_Trunkater_shrink [simp]:
  "is_visible w (Trunkater_shrink w' t) = is_visible w t"
  by (simp add: is_visible_def Trunkater_shrink_def truncate_tail_def Let_def)

lemma is_visible_shrink_pow [simp]:
  "is_visible w ((Trunkater_shrink w' ^^ n) t) = is_visible w t"
  by (induction n) simp_all

lemma is_visible_Diff_shrink [simp]: "is_visible w (Diff_shrink d) = is_visible w d"
  by (simp add: is_visible_def Diff_shrink_def)

lemma is_visible_fold_Trunkater_shrink:
  "is_visible w (fold Trunkater_shrink ws t) = is_visible w t"
  by (induction ws arbitrary: t) simp_all

lemma is_visible_Diff_shrink_pow: "is_visible w ((Diff_shrink ^^ n) d) = is_visible w d"
  by (induction n) simp_all

text \<open>
  C9. An element whose visibility evaluates to false at access time renders the empty
  string for its prompt, its abstract example and its concrete example, whatever its
  fields hold: any value \<open>v\<close> passed through \<open>_hide\<close> is dropped. This includes a
  \<open>Trunkater\<close> after any sequence of shrink calls (made under any flag states \<open>ws\<close>), a
  \<open>Diff\<close> after any number of shrink calls, and a \<open>History\<close>, whose visibility is the
  closure \<open>lambda: flags.use_history\<close> and whose \<open>_prompt\<close> is computed from its steps.
\<close>

theorem hidden_element_renders_empty:
  fixes e :: "('w, 'a) PromptElement_scheme"
    and t :: "('w, 'b) Trunkater_scheme"
    and d :: "('w, 'c) Diff_scheme"
  shows "(\<not> is_visible w e \<longrightarrow>
            prompt w e = [] \<and> abstract_ex w e = [] \<and> concrete_ex w e = [] \<and> hide w e v = [])
       \<and> (\<not> is_visible w t \<longrightarrow> prompt w (fold Trunkater_shrink ws t) = [])
       \<and> (\<not> is_visible w d \<longrightarrow> Diff_prompt w ((Diff_shrink ^^ n) d) = [])
       \<and> (\<not> is_visible f h \<longrightarrow> History_prompt f h = [])"
  by (simp add: prompt_def abstract_ex_def concrete_ex_def Diff_prompt_def
      History_prompt_def hide_invisible
      is_visible_fold_Trunkater_shrink is_visible_Diff_shrink_pow)

theorem hidden_element_renders_empty_witness:
  "\<not> is_visible flags_off hidden_leaf
   \<and> prompt flags_off hidden_leaf = [] \<and> abstract_ex flags_off hidden_leaf = []
   \<and> concrete_ex flags_off hidden_leaf = []
   \<and> \<not> is_visible flags_off (HTML_init ''a'' False (Callable use_html) ''## '')
   \<and> prompt flags_off
        (fold Trunkater_shrink (replicate 7 flags_off)
           (HTML_init ''a'' False (Callable use_html) ''## '')) = []
   \<and> \<not> is_visible flags_off hidden_diff
   \<and> Diff_prompt flags_off ((Diff_shrink ^^ 3) hidden_diff) = []
   \<and> \<not> is_visible flags_off hidden_history
   \<and> History_prompt flags_off hidden_history = []"
  using hidden_element_renders_empty [of flags_off hidden_leaf "[]"
      "HTML_init ''a'' False (Callable use_html) ''## ''" "replicate 7 flags_off"
      hidden_diff 3 flags_off hidden_history]
  by (simp add: is_visible_def flags_off_def hidden_leaf_def hidden_diff_def
      hidden_history_def HTML_init_def Trunkater_init_def)

section \<open>Lines of a string\<close>














section \<open>Trunkater: tail truncation\<close>


lemma Trunkater_shrink_speed [simp]:
  "t_shrink_speed (Trunkater_shrink w t) = t_shrink_speed t"
  by (simp add: Trunkater_shrink_def truncate_tail_def Let_def)












section \<open>diff and Diff\<close>



lemma last_diff_header: "last (diff_header a b) = CHR '':''"
  by (simp add: diff_header_def)

lemma diff_header_not_empty_marker: "diff_header a b \<noteq> ''previous is empty''"
proof
  assume "diff_header a b = ''previous is empty''"
  then have "last (diff_header a b) = last ''previous is empty''" by simp
  then show False by (simp add: last_diff_header)
qed

text \<open>
  C10. \<open>diff(None, new)\<close> with \<open>new\<close> not \<open>None\<close> raises \<open>TypeError\<close>: \<open>len(previous)\<close> is
  evaluated before \<open>previous is None\<close>. So the result \<open>"previous is empty"\<close> only comes from
  the empty string, never from \<open>None\<close>.
\<close>

theorem diff_None_previous_raises:
  "(new \<noteq> PyNone \<longrightarrow> diff ndiff PyNone new = Inl TypeError)
   \<and> (diff ndiff previous new = Inr (''previous is empty'', ls) \<longrightarrow> previous = PyStr [])"
  using diff_header_not_empty_marker
  by (auto simp: diff_def split: pyval.splits if_splits prod.splits)

theorem diff_None_previous_raises_witness:
  "PyStr ''x'' \<noteq> PyNone \<and> diff (\<lambda>a b. []) PyNone (PyStr ''x'') = Inl TypeError
   \<and> diff (\<lambda>a b. []) (PyStr []) (PyStr ''x'') = Inr (''previous is empty'', [])"
  using diff_None_previous_raises [of "PyStr ''x''" "\<lambda>a b. []" "PyStr []" "[]"]
  by (simp add: diff_def)

text \<open>
  C8. \<open>diff\<close> returns \<open>"Identical"\<close> and no diff line when \<open>previous == new\<close>; it returns
  \<open>"previous is empty"\<close> and no diff line when \<open>previous\<close> is the empty string and \<open>new\<close> is
  not; and for \<open>"a\nb\nc"\<close> against \<open>"a\nx\nc"\<close>, where \<open>difflib.ndiff\<close> yields the lines
  \<open>"  a"\<close>, \<open>"- b"\<close>, \<open>"+ x"\<close>, \<open>"  c"\<close>, it returns the header
  \<open>"1 lines added and 1 lines removed:"\<close> with the two diff lines.
\<close>

theorem diff_markers:
  "diff ndiff previous previous = Inr (''Identical'', [])
   \<and> (new \<noteq> PyStr [] \<longrightarrow> diff ndiff (PyStr []) new = Inr (''previous is empty'', []))
   \<and> (ndiff [''a'', ''b'', ''c''] [''a'', ''x'', ''c''] = [''  a'', ''- b'', ''+ x'', ''  c''] \<longrightarrow>
        diff ndiff (PyStr ''a\<newline>b\<newline>c'') (PyStr ''a\<newline>x\<newline>c'') =
          Inr (''1 lines added and 1 lines removed:'', [''- b'', ''+ x'']))"
proof -
  have split_abc: "splitlines ''a\<newline>b\<newline>c'' = [''a'', ''b'', ''c'']"
    and split_axc: "splitlines ''a\<newline>x\<newline>c'' = [''a'', ''x'', ''c'']"
    by code_simp+
  have loop: "diff_loop [''  a'', ''- b'', ''+ x'', ''  c''] ([], 0, 0) = ([''- b'', ''+ x''], 1, 1)"
    by code_simp
  have hdr: "diff_header 1 1 = ''1 lines added and 1 lines removed:''"
    by code_simp
  have same: "diff ndiff previous previous = Inr (''Identical'', [])"
    by (simp add: diff_def)
  have empty: "diff ndiff (PyStr []) new = Inr (''previous is empty'', [])"
    if "new \<noteq> PyStr []"
    using that by (auto simp: diff_def)
  have example: "diff ndiff (PyStr ''a\<newline>b\<newline>c'') (PyStr ''a\<newline>x\<newline>c'') =
          Inr (''1 lines added and 1 lines removed:'', [''- b'', ''+ x''])"
    if nd: "ndiff [''a'', ''b'', ''c''] [''a'', ''x'', ''c''] = [''  a'', ''- b'', ''+ x'', ''  c'']"
  proof -
    have "diff_loop (ndiff (splitlines ''a\<newline>b\<newline>c'') (splitlines ''a\<newline>x\<newline>c'')) ([], 0, 0)
            = ([''- b'', ''+ x''], 1, 1)"
      unfolding split_abc split_axc nd by (rule loop)
    then show ?thesis
      by (simp add: diff_def hdr del: diff_loop.simps)
  qed
  from same empty example show ?thesis by blast
qed

theorem diff_markers_witness:
  "diff (\<lambda>a b. [''  a'', ''- b'', ''+ x'', ''  c'']) (PyStr ''a\<newline>b'') (PyStr ''a\<newline>b'')
     = Inr (''Identical'', [])
   \<and> PyStr ''x'' \<noteq> PyStr []
   \<and> diff (\<lambda>a b. [''  a'', ''- b'', ''+ x'', ''  c'']) (PyStr []) (PyStr ''x'')
       = Inr (''previous is empty'', [])
   \<and> diff (\<lambda>a b. [''  a'', ''- b'', ''+ x'', ''  c''])
        (PyStr ''a\<newline>b\<newline>c'') (PyStr ''a\<newline>x\<newline>c'')
       = Inr (''1 lines added and 1 lines removed:'', [''- b'', ''+ x''])"
  using diff_markers [of "\<lambda>a b. [''  a'', ''- b'', ''+ x'', ''  c'']" "PyStr ''a\<newline>b''" "PyStr ''x''"]
  by simp





section \<open>Repeated shrinking\<close>









lemma fold_Trunkater_shrink_speed [simp]:
  "t_shrink_speed (fold Trunkater_shrink ws t) = t_shrink_speed t"
  by (induction ws arbitrary: t) simp_all






section \<open>fit\_tokens\<close>

lemma fit_tokens_loop_returns:
  assumes "i < n"
    and "\<forall>j<i. over_budget ct model m (render ((shrink ^^ j) s))"
    and "within_budget ct model m (render ((shrink ^^ i) s))"
  shows "fit_tokens_loop ct render shrink m model n s k seen =
           Returned (render ((shrink ^^ i) s)) ((shrink ^^ i) s) (k + i)"
  using assms
proof (induction n arbitrary: i s k seen)
  case 0
  then show ?case by simp
next
  case (Suc n)
  show ?case
  proof (cases i)
    case 0
    with Suc.prems(3) show ?thesis
      by (auto simp: within_budget_def Let_def split: sum.splits)
  next
    case (Suc i')
    have over0: "over_budget ct model m (render s)"
      using Suc.prems(2) Suc by force
    have a: "i' < n" using Suc.prems(1) Suc by simp
    have b: "\<forall>j<i'. over_budget ct model m (render ((shrink ^^ j) (shrink s)))"
    proof (intro allI impI)
      fix j assume "j < i'"
      then have "Suc j < i" using Suc by simp
      with Suc.prems(2) have "over_budget ct model m (render ((shrink ^^ Suc j) s))" by blast
      then show "over_budget ct model m (render ((shrink ^^ j) (shrink s)))"
        by (simp add: funpow_swap1)
    qed
    have c: "within_budget ct model m (render ((shrink ^^ i') (shrink s)))"
      using Suc.prems(3) Suc by (simp add: funpow_swap1)
    from Suc.IH [OF a b c]
    have "fit_tokens_loop ct render shrink m model n (shrink s) (Suc k)
            (Some (render s, text_of (render s))) =
           Returned (render ((shrink ^^ i') (shrink s))) ((shrink ^^ i') (shrink s)) (Suc k + i')"
      by blast
    with over0 Suc show ?thesis
      by (auto simp: over_budget_def text_of_def Let_def funpow_swap1 split: sum.splits)
  qed
qed

lemma fit_tokens_loop_exhausts:
  assumes "\<forall>j<n. over_budget ct model m (render ((shrink ^^ j) s))"
  shows "fit_tokens_loop ct render shrink m model n s k seen =
           Exhausted ((shrink ^^ n) s) (k + n)
             (if n = 0 then seen
              else Some (render ((shrink ^^ (n - 1)) s), text_of (render ((shrink ^^ (n - 1)) s))))"
  using assms
proof (induction n arbitrary: s k seen)
  case 0
  then show ?case by simp
next
  case (Suc n)
  have over0: "over_budget ct model m (render s)"
    using Suc.prems by force
  have b: "\<forall>j<n. over_budget ct model m (render ((shrink ^^ j) (shrink s)))"
  proof (intro allI impI)
    fix j assume "j < n"
    then have "over_budget ct model m (render ((shrink ^^ Suc j) s))"
      using Suc.prems by blast
    then show "over_budget ct model m (render ((shrink ^^ j) (shrink s)))"
      by (simp add: funpow_swap1)
  qed
  note IH = Suc.IH [OF b, of "Suc k" "Some (render s, text_of (render s))"]
  show ?case
  proof (cases n)
    case 0
    with over0 IH show ?thesis
      by (auto simp: over_budget_def text_of_def Let_def split: sum.splits)
  next
    case (Suc n')
    with over0 IH show ?thesis
      by (auto simp: over_budget_def text_of_def Let_def funpow_swap1 split: sum.splits)
  qed
qed

lemma text_parts_filter:
  "text_parts ps = concat (map (\<lambda>p. case p of TextPart t \<Rightarrow> [t] | ImagePart u \<Rightarrow> []) ps)"
  by (induction ps rule: text_parts.induct) simp_all

text \<open>
  C2 at \<open>max_iterations = 0\<close>, with a token budget set: the loop body never runs, so
  \<open>prompt_str\<close> and \<open>prompt\<close> are unbound after the loop and \<open>fit_tokens\<close> raises
  \<open>UnboundLocalError\<close> instead of returning a fragment. Nothing was rendered or shrunk.
\<close>

theorem fit_tokens_zero_iterations_unbound:
  "fit_tokens count_tokens render shrink s (Some m) 0 model_name =
     \<lparr> outcome = Inl UnboundLocalError, root = s, shrink_count = 0, logged = [] \<rparr>"
  by (simp add: fit_tokens_def)

text \<open>
  \<open>fit_tokens\<close> with at least one iteration. Without a budget (\<open>None\<close>) it returns the
  root's prompt and calls \<open>shrink\<close> zero times. With a budget \<open>m\<close>: if the prompt after \<open>i\<close>
  shrink calls is the first within the budget, and \<open>i < max_iterations\<close>, it returns that
  prompt after exactly \<open>i\<close> shrink calls and logs nothing; if none of the first
  \<open>max_iterations\<close> prompts is within the budget, it returns the last one rendered (the
  root has been shrunk once more since) and logs the message with that prompt's token
  count under the default model. The text counted for a list of parts is its text
  parts joined by newlines: image parts are left out.
\<close>

theorem fit_tokens_fits:
  fixes render :: "'s \<Rightarrow> fragment" and shrink :: "'s \<Rightarrow> 's"
  shows "fit_tokens ct render shrink s None max_iterations model =
           \<lparr> outcome = Inr (render s), root = s, shrink_count = 0, logged = [] \<rparr>
       \<and> (i < nat max_iterations
            \<and> (\<forall>j<i. over_budget ct model m (render ((shrink ^^ j) s)))
            \<and> within_budget ct model m (render ((shrink ^^ i) s)) \<longrightarrow>
          fit_tokens ct render shrink s (Some m) max_iterations model =
            \<lparr> outcome = Inr (render ((shrink ^^ i) s)), root = (shrink ^^ i) s,
              shrink_count = i, logged = [] \<rparr>)
       \<and> (0 < max_iterations
            \<and> (\<forall>j<nat max_iterations. over_budget ct model m (render ((shrink ^^ j) s))) \<longrightarrow>
          fit_tokens ct render shrink s (Some m) max_iterations model =
            \<lparr> outcome = Inr (render ((shrink ^^ (nat max_iterations - 1)) s)),
              root = (shrink ^^ nat max_iterations) s,
              shrink_count = nat max_iterations,
              logged = [still_too_long max_iterations
                          (ct (text_of (render ((shrink ^^ (nat max_iterations - 1)) s)))
                             ''openai/gpt-4'') m] \<rparr>)
       \<and> text_of (PartsPrompt ps) =
           join ''\<newline>'' (concat (map (\<lambda>p. case p of TextPart t \<Rightarrow> [t] | ImagePart u \<Rightarrow> []) ps))
       \<and> text_of (StrPrompt t) = t"
proof -
  have none: "fit_tokens ct render shrink s None max_iterations model =
           \<lparr> outcome = Inr (render s), root = s, shrink_count = 0, logged = [] \<rparr>"
    by (simp add: fit_tokens_def)
  have fits: "fit_tokens ct render shrink s (Some m) max_iterations model =
            \<lparr> outcome = Inr (render ((shrink ^^ i) s)), root = (shrink ^^ i) s,
              shrink_count = i, logged = [] \<rparr>"
    if "i < nat max_iterations"
      "\<forall>j<i. over_budget ct model m (render ((shrink ^^ j) s))"
      "within_budget ct model m (render ((shrink ^^ i) s))"
    using fit_tokens_loop_returns [OF that, of 0 None]
    by (simp add: fit_tokens_def)
  have exhausted: "fit_tokens ct render shrink s (Some m) max_iterations model =
            \<lparr> outcome = Inr (render ((shrink ^^ (nat max_iterations - 1)) s)),
              root = (shrink ^^ nat max_iterations) s,
              shrink_count = nat max_iterations,
              logged = [still_too_long max_iterations
                          (ct (text_of (render ((shrink ^^ (nat max_iterations - 1)) s)))
                             ''openai/gpt-4'') m] \<rparr>"
    if "0 < max_iterations"
      "\<forall>j<nat max_iterations. over_budget ct model m (render ((shrink ^^ j) s))"
    using fit_tokens_loop_exhausts [OF that(2), of 0 None] that(1)
    by (simp add: fit_tokens_def)
  have parts: "text_of (PartsPrompt ps) =
           join ''\<newline>'' (concat (map (\<lambda>p. case p of TextPart t \<Rightarrow> [t] | ImagePart u \<Rightarrow> []) ps))"
    "text_of (StrPrompt t) = t"
    by (simp_all add: text_of_def prompt_str_def text_parts_filter)
  from none fits exhausted parts show ?thesis by blast
qed

theorem fit_tokens_zero_iterations_unbound_witness:
  "fit_tokens count_chars xs_render xs_shrink 5 (Some 2) 0 ''openai/gpt-4'' =
     \<lparr> outcome = Inl UnboundLocalError, root = 5, shrink_count = 0, logged = [] \<rparr>"
  by (rule fit_tokens_zero_iterations_unbound)

lemma xs_shrink_pow: "(xs_shrink ^^ j) n = n - j"
  by (induction j) (simp_all add: xs_shrink_def)

lemma xs_over: "over_budget count_chars model 2 (xs_render n) \<longleftrightarrow> 2 < n"
  by (simp add: over_budget_def prompt_str_def xs_render_def count_chars_def)

lemma xs_within: "within_budget count_chars model 2 (xs_render n) \<longleftrightarrow> n \<le> 2"
  by (simp add: within_budget_def prompt_str_def xs_render_def count_chars_def)

theorem fit_tokens_fits_witness:
  "fit_tokens count_chars xs_render xs_shrink 5 None 20 ''openai/gpt-4'' =
     \<lparr> outcome = Inr (xs_render 5), root = 5, shrink_count = 0, logged = [] \<rparr>
   \<and> (3 :: nat) < nat 20
   \<and> over_budget count_chars ''openai/gpt-4'' 2 (xs_render 5)
   \<and> over_budget count_chars ''openai/gpt-4'' 2 (xs_render 4)
   \<and> over_budget count_chars ''openai/gpt-4'' 2 (xs_render 3)
   \<and> within_budget count_chars ''openai/gpt-4'' 2 (xs_render 2)
   \<and> fit_tokens count_chars xs_render xs_shrink 5 (Some 2) 20 ''openai/gpt-4'' =
       \<lparr> outcome = Inr (xs_render 2), root = 2, shrink_count = 3, logged = [] \<rparr>
   \<and> fit_tokens count_chars xs_render xs_shrink 5 (Some 2) 2 ''openai/gpt-4'' =
       \<lparr> outcome = Inr (xs_render 4), root = 3, shrink_count = 2,
         logged = [still_too_long 2 4 2] \<rparr>"
proof -
  note T = fit_tokens_fits [where ct = count_chars and render = xs_render
      and shrink = xs_shrink and s = 5 and model = "''openai/gpt-4''" and m = 2
      and ps = "[]" and t = "[]"]
  have none: "fit_tokens count_chars xs_render xs_shrink 5 None 20 ''openai/gpt-4'' =
     \<lparr> outcome = Inr (xs_render 5), root = 5, shrink_count = 0, logged = [] \<rparr>"
    using T [where max_iterations = 20 and i = 3] by blast
  have over: "\<forall>j<3. over_budget count_chars ''openai/gpt-4'' 2 (xs_render ((xs_shrink ^^ j) 5))"
    by (auto simp: xs_shrink_pow xs_over)
  have within: "within_budget count_chars ''openai/gpt-4'' 2 (xs_render ((xs_shrink ^^ 3) 5))"
    by (simp add: xs_shrink_pow xs_within)
  have "fit_tokens count_chars xs_render xs_shrink 5 (Some 2) 20 ''openai/gpt-4'' =
       \<lparr> outcome = Inr (xs_render ((xs_shrink ^^ 3) 5)), root = (xs_shrink ^^ 3) 5,
         shrink_count = 3, logged = [] \<rparr>"
    using T [where max_iterations = 20 and i = 3] over within by simp
  then have fits: "fit_tokens count_chars xs_render xs_shrink 5 (Some 2) 20 ''openai/gpt-4'' =
       \<lparr> outcome = Inr (xs_render 2), root = 2, shrink_count = 3, logged = [] \<rparr>"
    by (simp add: xs_shrink_pow)
  have over2: "\<forall>j<nat 2. over_budget count_chars ''openai/gpt-4'' 2 (xs_render ((xs_shrink ^^ j) 5))"
    by (auto simp: xs_shrink_pow xs_over)
  have "fit_tokens count_chars xs_render xs_shrink 5 (Some 2) 2 ''openai/gpt-4'' =
            \<lparr> outcome = Inr (xs_render ((xs_shrink ^^ (nat 2 - 1)) 5)),
              root = (xs_shrink ^^ nat 2) 5,
              shrink_count = nat 2,
              logged = [still_too_long 2
                          (count_chars (text_of (xs_render ((xs_shrink ^^ (nat 2 - 1)) 5)))
                             ''openai/gpt-4'') 2] \<rparr>"
    using T [where max_iterations = 2 and i = 0] over2 by simp
  then have exh: "fit_tokens count_chars xs_render xs_shrink 5 (Some 2) 2 ''openai/gpt-4'' =
       \<lparr> outcome = Inr (xs_render 4), root = 3, shrink_count = 2,
         logged = [still_too_long 2 4 2] \<rparr>"
    by (simp add: xs_shrink_pow xs_shrink_def text_of_def prompt_str_def xs_render_def count_chars_def)
  from none fits exh show ?thesis
    by (simp add: xs_over xs_within)
qed

section \<open>The response parser\<close>






















section \<open>The retry driver\<close>


















section \<open>Inputs outside the domains above\<close>

text \<open>
  \<open>diff\<close> tells an added or removed line by the first character of the stripped line of
  the delta, so an unchanged line whose own text starts with \<open>+\<close> or \<open>-\<close> counts too: for
  \<open>"+ item\na"\<close> against \<open>"+ item\nb"\<close>, where \<open>difflib.ndiff\<close> yields \<open>"  + item"\<close>, \<open>"- a"\<close>,
  \<open>"+ b"\<close>, the header states 2 added lines and the unchanged line is among the diff lines.
\<close>

theorem diff_counts_unchanged_plus_line:
  "diff (\<lambda>a b. [''  + item'', ''- a'', ''+ b''])
     (PyStr ''+ item\<newline>a'') (PyStr ''+ item\<newline>b'')
     = Inr (''2 lines added and 1 lines removed:'', [''  + item'', ''- a'', ''+ b''])"
  by code_simp

text \<open>
  A key listed both as required and as optional is handled twice by \<open>parse_html_tags\<close>,
  the second time on the string the first pass stored: \<open>val[0]\<close> is then its first
  character and \<open>len(val)\<close> its length, and an empty value raises \<open>IndexError\<close>.
\<close>

theorem parse_html_tags_key_listed_twice:
  "parse_html_tags ''<a>hi</a>'' [''a''] [''a''] False
     = Inr ([(''a'', Text ''h'')], False,
            ''Found multiple instances of the key a. You should have only one of them.'')
   \<and> parse_html_tags ''<a></a>'' [''a''] [''a''] False = Inl IndexError"
  by code_simp

text \<open>
  With \<open>rate_limit_max_wait_time = 0\<close> the condition of the \<open>while\<close> loop is false from the
  start: \<open>retry\<close> raises \<open>RetryError\<close> without calling the endpoint, whatever \<open>n_retry\<close> is.
\<close>

theorem retry_zero_wait_limit:
  "retry (Suc fuel) chat msgs n_retry parser min_wait 0
     = Some (Inl (retry_error n_retry), start_state msgs)"
  by (simp add: retry_def start_state_def)

end
